theory Spec2Isabelle
  imports Main "HOL-Library.Word"
begin

unbundle bit_operations_syntax

section \<open>Data model of the synchronisation services\<close>

text \<open>
  The services are the TypeScript classes of the implementation plan
  (\<^verbatim>\<open>SyncService\<close>, \<^verbatim>\<open>DatabaseSyncAdapter\<close>, \<^verbatim>\<open>ConversationSyncService\<close>,
  \<^verbatim>\<open>OfflineSyncQueue\<close>, \<^verbatim>\<open>EncryptionService\<close>). Every class field becomes a
  record field, every method a function that takes the state and returns the new one,
  every \<^verbatim>\<open>throw\<close> a value \<open>Inl\<close> of a sum type.
\<close>

datatype error =
  Error string

record SyncConfiguration =
  roomPrefix :: string
  signalingServers :: "string list"
  enableEncryption :: bool
  encryptionKey :: "string option"

text \<open>A \<^verbatim>\<open>Message\<close> row of the relational store, with the fields the adapter reads.\<close>

record Message =
  id_m :: string
  topicId_m :: string
  content_m :: string
  role_m :: string
  createdAt_m :: int
  modelId_m :: "string option"
  status_m :: "string option"

text \<open>The object \<^verbatim>\<open>serializeMessage\<close> builds, which is what the shared array holds.\<close>

record SerializedMessage =
  id_s :: string
  content_s :: string
  role_s :: string
  timestamp_s :: int
  metadata_modelId :: "string option"
  metadata_status :: "string option"

datatype metaValue =
  MStr string
| MNum int

text \<open>
  A \<^verbatim>\<open>Y.Doc\<close> as the services use it: the shared array \<^verbatim>\<open>'messages'\<close> and the shared map
  \<^verbatim>\<open>'metadata'\<close>. \<^verbatim>\<open>new Y.Doc()\<close> is the document with both empty.
\<close>

record YDoc =
  messages :: "SerializedMessage list"
  metadata :: "string \<rightharpoonup> metaValue"

definition new_YDoc :: YDoc where
  "new_YDoc = \<lparr> messages = [], metadata = Map.empty \<rparr>"

text \<open>
  A \<^verbatim>\<open>WebrtcProvider\<close>: the room it joined, the options it was constructed with, and the
  peers currently connected to it (\<^verbatim>\<open>webrtcPeers\<close> of its \<^verbatim>\<open>'peers'\<close> event), which only
  the network changes.
\<close>

record WebrtcProvider =
  room :: string
  signaling :: "string list"
  password :: "string option"
  maxConns :: nat
  filterBcConns :: bool
  webrtcPeers :: "string list"

record SyncService =
  config :: SyncConfiguration
  ydocs :: "string \<rightharpoonup> YDoc"
  providers :: "string \<rightharpoonup> WebrtcProvider"

section \<open>SyncService\<close>

text \<open>The private constructor: stores the configuration, both maps start empty.\<close>

definition new_SyncService :: "SyncConfiguration \<Rightarrow> SyncService" where
  "new_SyncService c = \<lparr> config = c, ydocs = Map.empty, providers = Map.empty \<rparr>"

text \<open>
  \<^verbatim>\<open>getInstance(config?)\<close>. The first argument is the static field
  \<^verbatim>\<open>SyncService.instance\<close> (\<open>None\<close> while it is undefined); the result is the new value
  of the static field paired with the returned value.
\<close>

definition getInstance ::
  "SyncService option \<Rightarrow> SyncConfiguration option \<Rightarrow> SyncService option \<times> SyncService option" where
  "getInstance inst cfg =
     (let inst' = (case (inst, cfg) of
                     (None, Some c) \<Rightarrow> Some (new_SyncService c)
                   | _ \<Rightarrow> inst)
      in (inst', inst'))"

definition roomName :: "SyncConfiguration \<Rightarrow> string \<Rightarrow> string \<Rightarrow> string" where
  "roomName c resourceType resourceId =
     roomPrefix c @ ''-'' @ resourceType @ ''-'' @ resourceId"

definition new_WebrtcProvider :: "string \<Rightarrow> SyncConfiguration \<Rightarrow> WebrtcProvider" where
  "new_WebrtcProvider r c =
     \<lparr> room = r, signaling = signalingServers c, password = encryptionKey c,
       maxConns = 10, filterBcConns = True, webrtcPeers = [] \<rparr>"

text \<open>
  \<^verbatim>\<open>createSyncDocument\<close>: a new document and a new provider, both stored under the room
  name with \<^verbatim>\<open>Map.set\<close>, whatever the maps held before. The event handlers it installs
  only log.
\<close>

definition createSyncDocument ::
  "string \<Rightarrow> string \<Rightarrow> SyncService \<Rightarrow> (YDoc \<times> WebrtcProvider) \<times> SyncService" where
  "createSyncDocument resourceType resourceId s =
     (let r = roomName (config s) resourceType resourceId;
          ydoc = new_YDoc;
          provider = new_WebrtcProvider r (config s)
      in ((ydoc, provider),
          s\<lparr> ydocs := (ydocs s)(r \<mapsto> ydoc), providers := (providers s)(r \<mapsto> provider) \<rparr>))"

definition destroySyncDocument :: "string \<Rightarrow> string \<Rightarrow> SyncService \<Rightarrow> SyncService" where
  "destroySyncDocument resourceType resourceId s =
     (let r = roomName (config s) resourceType resourceId
      in s\<lparr> providers := (providers s)(r := None), ydocs := (ydocs s)(r := None) \<rparr>)"

definition getSyncDocument :: "string \<Rightarrow> string \<Rightarrow> SyncService \<Rightarrow> YDoc option" where
  "getSyncDocument resourceType resourceId s =
     ydocs s (roomName (config s) resourceType resourceId)"

section \<open>The state of the process\<close>

datatype updateType =
  TMessage
| TEdit
| TDelete

record QueuedUpdate =
  id_q :: string
  type_q :: updateType
  topicId_q :: string
  data_q :: SerializedMessage
  timestamp_q :: int
  retryCount :: nat

text \<open>
  The module-level singletons and what they share, in one record:
  \<^item> \<open>syncService\<close>: the exported \<^verbatim>\<open>syncService\<close>;
  \<^item> \<open>syncing\<close>, \<open>yobservers\<close>: the fields of \<^verbatim>\<open>databaseSyncAdapter\<close> (of the observer
    map only the keys);
  \<^item> \<open>activeConversations\<close>: the field of \<^verbatim>\<open>conversationSyncService\<close>;
  \<^item> \<open>messageDatabase\<close>: the rows of the relational store, in creation order;
  \<^item> \<open>queue\<close>, \<open>isProcessing\<close>: the fields of \<^verbatim>\<open>offlineSyncQueue\<close>;
  \<^item> \<open>asyncStorage\<close>: the item stored under \<^verbatim>\<open>QUEUE_KEY\<close> (\<open>None\<close> while there is none);
    \<^verbatim>\<open>JSON.parse\<close> after \<^verbatim>\<open>JSON.stringify\<close> gives the queue back, so the item is the
    queue itself;
  \<^item> \<open>setItemRejects\<close>: the environment's part in \<^verbatim>\<open>AsyncStorage.setItem\<close>: for each
    coming call, in order, whether its promise rejects; a call beyond the list resolves;
  \<^item> \<open>applied\<close>: a history variable, not a field of the source: the queued updates
    whose \<^verbatim>\<open>applyUpdate\<close> has returned, in the order in which it did.
  Reads of the relational store and \<^verbatim>\<open>AsyncStorage.getItem\<close> are taken to succeed.
\<close>

record World =
  syncService :: SyncService
  syncing :: bool
  yobservers :: "string set"
  activeConversations :: "string set"
  messageDatabase :: "Message list"
  queue :: "QueuedUpdate list"
  isProcessing :: bool
  asyncStorage :: "QueuedUpdate list option"
  setItemRejects :: "bool list"
  applied :: "QueuedUpdate list"

text \<open>
  A \<^verbatim>\<open>Y.Doc\<close> reference held by a caller is the room name under which the document is
  stored: \<^verbatim>\<open>ydoc.transact(f)\<close> on that reference changes the stored document.
\<close>

definition transact :: "string \<Rightarrow> (YDoc \<Rightarrow> YDoc) \<Rightarrow> SyncService \<Rightarrow> SyncService" where
  "transact r f s =
     (case ydocs s r of
        None \<Rightarrow> s
      | Some d \<Rightarrow> s\<lparr> ydocs := (ydocs s)(r \<mapsto> f d) \<rparr>)"

section \<open>DatabaseSyncAdapter\<close>

definition serializeMessage :: "Message \<Rightarrow> SerializedMessage" where
  "serializeMessage m =
     \<lparr> id_s = id_m m, content_s = content_m m, role_s = role_m m,
       timestamp_s = createdAt_m m,
       metadata_modelId = modelId_m m, metadata_status = status_m m \<rparr>"

definition getMessagesByTopicId :: "string \<Rightarrow> Message list \<Rightarrow> Message list" where
  "getMessagesByTopicId topicId db = filter (\<lambda>m. topicId_m m = topicId) db"

text \<open>
  \<^verbatim>\<open>initializeConversationSync(topicId, ydoc)\<close>; \<open>r\<close> is the document reference and \<open>now\<close>
  the value of \<^verbatim>\<open>Date.now()\<close>. While another initialisation is in progress it warns and
  returns. Otherwise one transaction pushes every stored message of the topic and sets
  the three metadata keys, then the observer is registered, and \<^verbatim>\<open>finally\<close> clears the
  flag.
\<close>

definition initializeConversationSync :: "string \<Rightarrow> string \<Rightarrow> int \<Rightarrow> World \<Rightarrow> World" where
  "initializeConversationSync topicId r now w =
     (if syncing w then w
      else
        let msgs = getMessagesByTopicId topicId (messageDatabase w);
            hydrate = (\<lambda>d. d\<lparr> messages := messages d @ map serializeMessage msgs,
                              metadata := (metadata d)(''topicId'' \<mapsto> MStr topicId,
                                                       ''lastSyncedAt'' \<mapsto> MNum now,
                                                       ''device'' \<mapsto> MStr ''mobile'') \<rparr>)
        in w\<lparr> syncService := transact r hydrate (syncService w),
               yobservers := insert (''yjs-to-db-'' @ topicId) (yobservers w),
               syncing := False \<rparr>)"

definition cleanupConversationSync :: "string \<Rightarrow> World \<Rightarrow> World" where
  "cleanupConversationSync topicId w =
     w\<lparr> yobservers := yobservers w - {''yjs-to-db-'' @ topicId} \<rparr>"

section \<open>ConversationSyncService\<close>

text \<open>
  \<^verbatim>\<open>startConversationSync\<close>, as the list of the states reached after each of its three
  statements: the awaited \<^verbatim>\<open>createSyncDocument\<close>, the awaited
  \<^verbatim>\<open>initializeConversationSync\<close>, and \<^verbatim>\<open>activeConversations.add\<close>. The list is empty
  when the topic is already active.
\<close>

definition startConversationSync_steps :: "string \<Rightarrow> int \<Rightarrow> World \<Rightarrow> World list" where
  "startConversationSync_steps topicId now w =
     (if topicId \<in> activeConversations w then []
      else
        let w1 = w\<lparr> syncService :=
                      snd (createSyncDocument ''conversation'' topicId (syncService w)) \<rparr>;
            w2 = initializeConversationSync topicId
                   (roomName (config (syncService w)) ''conversation'' topicId) now w1;
            w3 = w2\<lparr> activeConversations := insert topicId (activeConversations w2) \<rparr>
        in [w1, w2, w3])"

definition startConversationSync :: "string \<Rightarrow> int \<Rightarrow> World \<Rightarrow> World" where
  "startConversationSync topicId now w = last (w # startConversationSync_steps topicId now w)"

definition stopConversationSync :: "string \<Rightarrow> World \<Rightarrow> World" where
  "stopConversationSync topicId w =
     (if topicId \<notin> activeConversations w then w
      else
        let w1 = cleanupConversationSync topicId w;
            w2 = w1\<lparr> syncService := destroySyncDocument ''conversation'' topicId (syncService w1) \<rparr>
        in w2\<lparr> activeConversations := activeConversations w2 - {topicId} \<rparr>)"

definition sendMessage :: "string \<Rightarrow> Message \<Rightarrow> World \<Rightarrow> (error + unit) \<times> World" where
  "sendMessage topicId message w =
     (case getSyncDocument ''conversation'' topicId (syncService w) of
        None \<Rightarrow> (Inl (Error ''Conversation not initialized for sync''), w)
      | Some ydoc \<Rightarrow>
          (Inr (),
           w\<lparr> syncService :=
                 transact (roomName (config (syncService w)) ''conversation'' topicId)
                   (\<lambda>d. d\<lparr> messages := messages d @ [serializeMessage message] \<rparr>)
                   (syncService w) \<rparr>))"

record SyncStatus =
  isActive :: bool
  peerCount :: nat
  lastSyncedAt :: "metaValue option"

text \<open>\<^verbatim>\<open>x || null\<close>: an absent or falsy value becomes \<^verbatim>\<open>null\<close>.\<close>

fun truthy :: "metaValue \<Rightarrow> bool" where
  "truthy (MStr s) = (s \<noteq> [])"
| "truthy (MNum n) = (n \<noteq> 0)"

definition orNull :: "metaValue option \<Rightarrow> metaValue option" where
  "orNull v = (case v of None \<Rightarrow> None | Some x \<Rightarrow> if truthy x then Some x else None)"

definition getSyncStatus :: "string \<Rightarrow> World \<Rightarrow> SyncStatus" where
  "getSyncStatus topicId w =
     (case getSyncDocument ''conversation'' topicId (syncService w) of
        None \<Rightarrow> \<lparr> isActive = False, peerCount = 0, lastSyncedAt = None \<rparr>
      | Some ydoc \<Rightarrow>
          \<lparr> isActive = topicId \<in> activeConversations w,
            peerCount = 0,
            lastSyncedAt = orNull (metadata ydoc ''lastSyncedAt'') \<rparr>)"

text \<open>
  The network connecting peers to the provider of a room; this is the only way
  \<open>webrtcPeers\<close> changes, and no method of the services does it.
\<close>

definition peersConnected :: "string \<Rightarrow> string list \<Rightarrow> World \<Rightarrow> World" where
  "peersConnected r ps w =
     (case providers (syncService w) r of
        None \<Rightarrow> w
      | Some p \<Rightarrow>
          w\<lparr> syncService := (syncService w)\<lparr> providers :=
                (providers (syncService w))(r \<mapsto> p\<lparr> webrtcPeers := webrtcPeers p @ ps \<rparr>) \<rparr> \<rparr>)"

section \<open>OfflineSyncQueue\<close>


text \<open>
  \<^verbatim>\<open>persistQueue\<close> awaits \<^verbatim>\<open>AsyncStorage.setItem\<close>: when the store rejects, the call
  throws the store's error and the stored item stays what it was.
\<close>

definition persistQueue :: "World \<Rightarrow> (error + unit) \<times> World" where
  "persistQueue w =
     (case setItemRejects w of
        [] \<Rightarrow> (Inr (), w\<lparr> asyncStorage := Some (queue w) \<rparr>)
      | rejects # later \<Rightarrow>
          if rejects then (Inl (Error ''AsyncStorage.setItem''), w\<lparr> setItemRejects := later \<rparr>)
          else (Inr (), w\<lparr> asyncStorage := Some (queue w), setItemRejects := later \<rparr>))"


text \<open>
  \<^verbatim>\<open>applyUpdate\<close>: throws when the conversation has no document; a \<^verbatim>\<open>'message'\<close> is
  pushed onto the shared array, the branches for \<^verbatim>\<open>'edit'\<close> and \<^verbatim>\<open>'delete'\<close> are empty.
\<close>

definition applyUpdate :: "QueuedUpdate \<Rightarrow> SyncService \<Rightarrow> error + SyncService" where
  "applyUpdate u s =
     (case getSyncDocument ''conversation'' (topicId_q u) s of
        None \<Rightarrow> Inl (Error ''Conversation not initialized for sync'')
      | Some ydoc \<Rightarrow>
          Inr (transact (roomName (config s) ''conversation'' (topicId_q u))
                 (\<lambda>d. if type_q u = TMessage then d\<lparr> messages := messages d @ [data_q u] \<rparr>
                       else d)
                 s))"

text \<open>
  The \<^verbatim>\<open>while\<close> loop of \<^verbatim>\<open>processQueue\<close>, as the list of the states the process goes
  through, one after each step that can be told apart from outside. The \<^verbatim>\<open>try\<close> block
  holds \<^verbatim>\<open>applyUpdate\<close>, \<^verbatim>\<open>queue.shift()\<close> and \<^verbatim>\<open>persistQueue\<close>, and one \<^verbatim>\<open>catch\<close> serves
  all three:
  \<^item> \<^verbatim>\<open>applyUpdate\<close> has returned and \<^verbatim>\<open>queue.shift()\<close> has run;
  \<^item> then \<^verbatim>\<open>persistQueue\<close> has returned, having written the shortened queue, and the
    loop goes on;
  \<^item> or \<^verbatim>\<open>persistQueue\<close> has thrown: the \<^verbatim>\<open>catch\<close> increments the retry count of
    \<^verbatim>\<open>update\<close>, which is no longer in the queue; at the ceiling it runs \<^verbatim>\<open>queue.shift()\<close>
    again, which removes the next update (none from an empty queue), and the loop goes
    on; below the ceiling the loop breaks;
  \<^item> or \<^verbatim>\<open>applyUpdate\<close> has thrown and the retry count of the head has been
    incremented: at the ceiling the head is shifted out (nothing is written) and the loop
    goes on, below it the loop breaks.
\<close>

function drain_steps :: "World \<Rightarrow> World list" where
  "drain_steps w =
     (case queue w of
        [] \<Rightarrow> []
      | update # rest \<Rightarrow>
          (case applyUpdate update (syncService w) of
             Inr s' \<Rightarrow>
               (let w1 = w\<lparr> syncService := s', applied := applied w @ [update],
                            queue := rest \<rparr>
                in case persistQueue w1 of
                     (Inr u, w2) \<Rightarrow> w1 # w2 # drain_steps w2
                   | (Inl e, w2) \<Rightarrow>
                       (let update' = update\<lparr> retryCount := retryCount update + 1 \<rparr>
                        in if retryCount update' \<ge> 3
                           then (let w3 = w2\<lparr> queue := tl (queue w2) \<rparr>
                                 in w1 # w2 # w3 # drain_steps w3)
                           else [w1, w2]))
           | Inl e \<Rightarrow>
               (let update' = update\<lparr> retryCount := retryCount update + 1 \<rparr>
                in if retryCount update' \<ge> 3
                   then (let w1 = w\<lparr> queue := rest \<rparr> in w1 # drain_steps w1)
                   else [w\<lparr> queue := update' # rest \<rparr>])))"
  by pat_completeness auto
termination
  by (relation "measure (\<lambda>w. length (queue w))")
     (auto simp: persistQueue_def split: list.splits if_splits)



section \<open>EncryptionService\<close>

type_synonym bytes = "8 word list"

text \<open>
  The two functions of the \<^verbatim>\<open>tweetnacl\<close> library are parameters. \<open>box_after\<close> is
  \<^verbatim>\<open>nacl.box.after(msg, nonce, key)\<close>; the service calls it with a nonce from
  \<^verbatim>\<open>nacl.randomBytes(nacl.box.nonceLength)\<close> and a key from \<^verbatim>\<open>nacl.box.before\<close>, whose
  sizes the library accepts. \<open>box_open_after\<close> is \<^verbatim>\<open>nacl.box.open.after(box, nonce, key)\<close>
  with its three outcomes: it throws (\<open>Inl\<close>, as on a nonce of the wrong size, which is
  what the slice of a frame shorter than the nonce length is), it returns \<^verbatim>\<open>null\<close>
  (\<open>Inr None\<close>) when the box does not verify, or it returns the message.
  \<^verbatim>\<open>nacl.box.nonceLength\<close> is the library's constant 24. The nonce drawn by
  \<^verbatim>\<open>nacl.randomBytes\<close> is an argument of \<open>encrypt\<close>.
\<close>

definition nonceLength :: nat where
  "nonceLength = 24"

definition encrypt ::
  "(bytes \<Rightarrow> bytes \<Rightarrow> bytes \<Rightarrow> bytes) \<Rightarrow> bytes option \<Rightarrow> bytes \<Rightarrow> bytes \<Rightarrow> error + bytes" where
  "encrypt box_after sharedKey nonce data =
     (case sharedKey of
        None \<Rightarrow> Inl (Error ''Shared key not established'')
      | Some k \<Rightarrow> Inr (nonce @ box_after data nonce k))"

definition decrypt ::
  "(bytes \<Rightarrow> bytes \<Rightarrow> bytes \<Rightarrow> error + bytes option) \<Rightarrow> bytes option \<Rightarrow> bytes
     \<Rightarrow> error + bytes" where
  "decrypt box_open_after sharedKey encrypted =
     (case sharedKey of
        None \<Rightarrow> Inl (Error ''Shared key not established'')
      | Some k \<Rightarrow>
          (let nonce = take nonceLength encrypted;
               ciphertext = drop nonceLength encrypted
           in case box_open_after ciphertext nonce k of
                Inl e \<Rightarrow> Inl e
              | Inr None \<Rightarrow> Inl (Error ''Decryption failed'')
              | Inr (Some decrypted) \<Rightarrow> Inr decrypted))"

section \<open>Derived notions and example states\<close>




definition withoutRetries :: "QueuedUpdate list \<Rightarrow> QueuedUpdate list" where
  "withoutRetries q = map (\<lambda>u. u\<lparr> retryCount := 0 \<rparr>) q"

text \<open>
  The configuration the module passes to \<^verbatim>\<open>SyncService.getInstance\<close> when it exports
  \<^verbatim>\<open>syncService\<close> (with \<^verbatim>\<open>EXPO_PUBLIC_SYNC_KEY\<close> unset), and the state of the process
  once the modules are loaded, over a relational store holding \<open>db\<close> and a store whose
  writes all resolve.
\<close>

definition exported_config :: SyncConfiguration where
  "exported_config =
     \<lparr> roomPrefix = ''the-boss'',
       signalingServers = [''wss://signaling.yjs.dev'',
                           ''wss://y-webrtc-signaling-us.herokuapp.com'',
                           ''wss://y-webrtc-signaling-eu.herokuapp.com''],
       enableEncryption = True,
       encryptionKey = None \<rparr>"

definition loaded :: "Message list \<Rightarrow> World" where
  "loaded db =
     \<lparr> syncService = new_SyncService exported_config,
       syncing = False, yobservers = {}, activeConversations = {},
       messageDatabase = db,
       queue = [], isProcessing = False, asyncStorage = None, setItemRejects = [],
       applied = [] \<rparr>"

definition hello :: Message where
  "hello = \<lparr> id_m = ''m1'', topicId_m = ''t1'', content_m = ''hi'', role_m = ''user'',
             createdAt_m = 1, modelId_m = None, status_m = None \<rparr>"



text \<open>
  States reached from there: a store that already holds one message; a conversation
  that was started and then received a message; a started conversation to which two
  peers connected; and a started conversation with one, then two, updates queued.
\<close>

definition stored_hello :: World where
  "stored_hello = loaded [hello]"

definition conversing :: World where
  "conversing = snd (sendMessage ''t1'' hello (startConversationSync ''t1'' 2 (loaded [])))"

definition two_peers :: World where
  "two_peers = peersConnected ''the-boss-conversation-t1'' [''desktop'', ''tablet'']
                 (startConversationSync ''t1'' 2 (loaded []))"



section \<open>Properties of the drain loop\<close>

declare drain_steps.simps [simp del]




lemma drain_steps_persist_rejected:
  assumes "queue w = u # rest" and "applyUpdate u (syncService w) = Inr s'"
      and "setItemRejects w = True # later"
  shows "drain_steps w =
           (let w1 = w\<lparr> syncService := s', applied := applied w @ [u], queue := rest \<rparr>;
                w2 = w1\<lparr> setItemRejects := later \<rparr>;
                w3 = w2\<lparr> queue := tl rest \<rparr>
            in if 3 \<le> retryCount u + 1 then w1 # w2 # w3 # drain_steps w3 else [w1, w2])"
  using assms by (subst drain_steps.simps) (simp add: persistQueue_def Let_def)


lemma drain_steps_discard:
  assumes "queue w = u # rest" and "applyUpdate u (syncService w) = Inl e"
      and "3 \<le> retryCount u + 1"
  shows "drain_steps w = w\<lparr> queue := rest \<rparr> # drain_steps (w\<lparr> queue := rest \<rparr>)"
  using assms by (subst drain_steps.simps) (simp add: Let_def)







lemma withoutRetries_drop: "withoutRetries (drop k q) = drop k (withoutRetries q)"
  by (simp add: withoutRetries_def drop_map)






section \<open>Evaluation of the example states\<close>

lemma room_t1 [simp]: "roomName exported_config ''conversation'' ''t1'' = ''the-boss-conversation-t1''"
  by (simp add: roomName_def exported_config_def)

lemma started_t1:
  "startConversationSync ''t1'' now (loaded db) =
     \<lparr> syncService =
         \<lparr> config = exported_config,
           ydocs = [''the-boss-conversation-t1'' \<mapsto>
              \<lparr> messages = map serializeMessage (getMessagesByTopicId ''t1'' db),
                metadata = [''topicId'' \<mapsto> MStr ''t1'', ''lastSyncedAt'' \<mapsto> MNum now,
                            ''device'' \<mapsto> MStr ''mobile''] \<rparr>],
           providers = [''the-boss-conversation-t1'' \<mapsto>
              new_WebrtcProvider ''the-boss-conversation-t1'' exported_config] \<rparr>,
       syncing = False, yobservers = {''yjs-to-db-t1''}, activeConversations = {''t1''},
       messageDatabase = db,
       queue = [], isProcessing = False, asyncStorage = None, setItemRejects = [],
       applied = [] \<rparr>"
  by (simp add: startConversationSync_def startConversationSync_steps_def loaded_def
      new_SyncService_def createSyncDocument_def initializeConversationSync_def Let_def
      transact_def new_YDoc_def)









section \<open>C10: the singleton\<close>

text \<open>
  C10. \<^verbatim>\<open>SyncService.getInstance\<close> is a process-wide singleton. The first call that
  supplies a configuration constructs the instance, whose configuration is the one
  supplied. Once the static field holds an instance, a call returns that instance and
  leaves the field as it is, whatever configuration it passes, and so does any sequence
  of calls; so after the constructing call every call, and every sequence of calls,
  yields the instance whose configuration is the first one.
\<close>

theorem getInstance_singleton:
  "getInstance None (Some c) = (Some (new_SyncService c), Some (new_SyncService c))
   \<and> config (new_SyncService c) = c
   \<and> map_option config (snd (getInstance None (Some c))) = Some c
   \<and> getInstance (Some i) cfg = (Some i, Some i)
   \<and> getInstance (fst (getInstance None (Some c))) cfg
       = (Some (new_SyncService c), Some (new_SyncService c))
   \<and> map_option config (snd (getInstance (fst (getInstance None (Some c))) cfg)) = Some c
   \<and> fold (\<lambda>cfg inst. fst (getInstance inst cfg)) cfgs (Some i) = Some i
   \<and> map_option config
         (fold (\<lambda>cfg inst. fst (getInstance inst cfg)) cfgs (fst (getInstance None (Some c))))
       = Some c"
proof -
  have always: "fold (\<lambda>cfg inst. fst (getInstance inst cfg)) cfgs (Some i) = Some i" for i
    by (induction cfgs) (simp_all add: getInstance_def Let_def)
  have first: "fst (getInstance None (Some c)) = Some (new_SyncService c)"
    by (simp add: getInstance_def Let_def)
  show ?thesis
    unfolding first always by (simp add: getInstance_def Let_def new_SyncService_def)
qed

section \<open>C9: sending to a conversation that was not started\<close>

text \<open>
  C9. When no sync document exists for the topic, \<^verbatim>\<open>sendMessage\<close> throws
  \<^verbatim>\<open>'Conversation not initialized for sync'\<close> and the whole state (every document, the
  relational store, the queue and its stored copy) is what it was before the call.
\<close>

theorem sendMessage_not_initialized:
  assumes "getSyncDocument ''conversation'' topicId (syncService w) = None"
  shows "sendMessage topicId message w
           = (Inl (Error ''Conversation not initialized for sync''), w)"
  using assms by (simp add: sendMessage_def)

theorem sendMessage_not_initialized_witness:
  "getSyncDocument ''conversation'' ''t1'' (syncService (loaded [])) = None
   \<and> sendMessage ''t1'' hello (loaded [])
        = (Inl (Error ''Conversation not initialized for sync''), loaded [])"
  using sendMessage_not_initialized [of "''t1''" "loaded []" hello]
  by (simp add: getSyncDocument_def loaded_def new_SyncService_def)

section \<open>C3: sealing and opening\<close>

text \<open>
  What \<open>decrypt\<close> returns is decided by the library function alone: its error when it
  throws, \<^verbatim>\<open>'Decryption failed'\<close> exactly when the box does not verify, and otherwise the
  whole of what the library returned.
\<close>

lemma decrypt_result:
  "decrypt box_open_after (Some k) encrypted =
     (case box_open_after (drop nonceLength encrypted) (take nonceLength encrypted) k of
        Inl e \<Rightarrow> Inl e
      | Inr None \<Rightarrow> Inl (Error ''Decryption failed'')
      | Inr (Some decrypted) \<Rightarrow> Inr decrypted)"
  by (simp add: decrypt_def)

text \<open>
  C3. Given that the library opens what it has sealed under the same nonce and key, and
  that the nonce has the library's nonce length: for every shared key and plaintext,
  \<open>encrypt\<close> returns the nonce followed by the sealed box, and \<open>decrypt\<close> of that frame
  under the same key returns exactly the plaintext.
\<close>

theorem seal_open_roundtrip:
  assumes "\<And>d. box_open_after (box_after d nonce k) nonce k = Inr (Some d)"
      and "length nonce = nonceLength"
  shows "encrypt box_after (Some k) nonce plaintext = Inr (nonce @ box_after plaintext nonce k)
         \<and> decrypt box_open_after (Some k) (nonce @ box_after plaintext nonce k) = Inr plaintext"
  using assms by (simp add: encrypt_def decrypt_def)

theorem seal_open_roundtrip_witness:
  "(\<forall>d::bytes. (Inr (Some (map (\<lambda>b. b XOR 0x5A) (map (\<lambda>b. b XOR 0x5A) d))) :: error + bytes option)
        = Inr (Some d))
   \<and> length (replicate 24 (7::8 word)) = nonceLength
   \<and> encrypt (\<lambda>d n k. map (\<lambda>b. b XOR hd k) d) (Some [0x5A]) (replicate 24 7) [1, 2, 3]
       = Inr (replicate 24 7 @ [0x5B, 0x58, 0x59])
   \<and> decrypt (\<lambda>c n k. if length n = nonceLength then Inr (Some (map (\<lambda>b. b XOR hd k) c))
                        else Inl (Error ''bad nonce size''))
        (Some [0x5A]) (replicate 24 7 @ [0x5B, 0x58, 0x59]) = Inr [1, 2, 3]"
proof -
  let ?seal = "\<lambda>(d::bytes) (n::bytes) (k::bytes). map (\<lambda>b. b XOR hd k) d"
  let ?unseal = "\<lambda>(c::bytes) (n::bytes) (k::bytes).
        if length n = nonceLength then Inr (Some (map (\<lambda>b. b XOR hd k) c))
        else (Inl (Error ''bad nonce size'') :: error + bytes option)"
  have inv: "(b XOR 0x5A) XOR 0x5A = b" for b :: "8 word"
    by (simp add: xor.assoc)
  have h2: "length (replicate 24 (7::8 word)) = nonceLength"
    by (simp add: nonceLength_def)
  have h1: "?unseal (?seal d (replicate 24 7) [0x5A]) (replicate 24 7) [0x5A] = Inr (Some d)" for d
    using h2 by (simp add: o_def inv)
  from seal_open_roundtrip [of ?unseal ?seal "replicate 24 7" "[0x5A]" "[1, 2, 3]", OF h1 h2]
  show ?thesis
    using h2 by (simp add: o_def inv)
qed

section \<open>C7: creating and looking up documents\<close>

text \<open>
  C7 as stated fails. In a conversation that was started and holds one message, a second
  \<^verbatim>\<open>createSyncDocument\<close> for the same resource returns a document with no messages, and
  afterwards the lookup returns that empty document: the existing document is neither
  returned nor kept.
\<close>

theorem createSyncDocument_not_idempotent:
  "map_option messages (getSyncDocument ''conversation'' ''t1'' (syncService conversing))
     = Some [serializeMessage hello]
   \<and> messages (fst (fst (createSyncDocument ''conversation'' ''t1'' (syncService conversing)))) = []
   \<and> map_option messages (getSyncDocument ''conversation'' ''t1''
         (snd (createSyncDocument ''conversation'' ''t1'' (syncService conversing)))) = Some []"
  by (simp add: conversing_def sendMessage_def started_t1 getSyncDocument_def transact_def
      createSyncDocument_def Let_def new_YDoc_def getMessagesByTopicId_def)

text \<open>
  C7, amended. \<^verbatim>\<open>createSyncDocument\<close> returns a new, empty document and a new provider
  on every call and stores them under the room name, so that the lookup then returns
  the empty document; \<^verbatim>\<open>getSyncDocument\<close> only reads the stored document; and
  \<^verbatim>\<open>startConversationSync\<close> for a topic that is already active changes nothing.
\<close>

theorem createSyncDocument_fresh:
  "fst (createSyncDocument resourceType resourceId s)
     = (new_YDoc, new_WebrtcProvider (roomName (config s) resourceType resourceId) (config s))
   \<and> getSyncDocument resourceType resourceId (snd (createSyncDocument resourceType resourceId s))
       = Some new_YDoc
   \<and> getSyncDocument resourceType resourceId s = ydocs s (roomName (config s) resourceType resourceId)
   \<and> (topicId \<in> activeConversations w \<longrightarrow> startConversationSync topicId now w = w)"
  by (simp add: createSyncDocument_def getSyncDocument_def Let_def startConversationSync_def
      startConversationSync_steps_def)

theorem createSyncDocument_fresh_witness:
  "''t1'' \<in> activeConversations conversing
   \<and> startConversationSync ''t1'' 7 conversing = conversing
   \<and> getSyncDocument ''conversation'' ''t1''
        (snd (createSyncDocument ''conversation'' ''t1'' (syncService conversing))) = Some new_YDoc"
  using createSyncDocument_fresh [of "''conversation''" "''t1''" "syncService conversing" "''t1''" conversing 7]
  by (simp add: conversing_def sendMessage_def started_t1 getSyncDocument_def)

section \<open>C6: hydration and the peer provider\<close>

text \<open>
  C6 as stated fails. With one message of the topic in the relational store, the state
  reached after the first statement of \<^verbatim>\<open>startConversationSync\<close> has the provider of the
  room constructed on the document, while the document holds none of the stored
  messages: hydration has not begun.
\<close>

theorem provider_before_hydration:
  "providers (syncService (startConversationSync_steps ''t1'' 2 stored_hello ! 0))
       ''the-boss-conversation-t1''
     = Some (new_WebrtcProvider ''the-boss-conversation-t1'' exported_config)
   \<and> map_option messages
         (ydocs (syncService (startConversationSync_steps ''t1'' 2 stored_hello ! 0))
            ''the-boss-conversation-t1'') = Some []
   \<and> getMessagesByTopicId ''t1''
         (messageDatabase (startConversationSync_steps ''t1'' 2 stored_hello ! 0)) = [hello]"
  by (simp add: startConversationSync_steps_def stored_hello_def loaded_def Let_def
      createSyncDocument_def new_SyncService_def new_YDoc_def getMessagesByTopicId_def hello_def)

text \<open>
  C6, amended. For a topic that is not active, and while no other initialisation is in
  progress, \<^verbatim>\<open>startConversationSync\<close> goes through three states. In the first the
  provider of the room exists, the document is empty and the topic is not active. In the
  second the document holds every stored message of the topic, serialised, in stored
  order, and the topic is still not active. In the third, which is the result, the topic
  is active and the sync service is as in the second.
\<close>

theorem startConversationSync_order:
  assumes "topicId \<notin> activeConversations w" and "\<not> syncing w"
  shows "let r = roomName (config (syncService w)) ''conversation'' topicId;
             st = startConversationSync_steps topicId now w
         in length st = 3
          \<and> providers (syncService (st ! 0)) r = Some (new_WebrtcProvider r (config (syncService w)))
          \<and> ydocs (syncService (st ! 0)) r = Some new_YDoc
          \<and> topicId \<notin> activeConversations (st ! 0)
          \<and> map_option messages (ydocs (syncService (st ! 1)) r)
               = Some (map serializeMessage (getMessagesByTopicId topicId (messageDatabase w)))
          \<and> topicId \<notin> activeConversations (st ! 1)
          \<and> topicId \<in> activeConversations (st ! 2)
          \<and> syncService (st ! 2) = syncService (st ! 1)
          \<and> startConversationSync topicId now w = st ! 2"
  using assms
  by (simp add: startConversationSync_def startConversationSync_steps_def Let_def
      createSyncDocument_def initializeConversationSync_def transact_def new_YDoc_def)

theorem startConversationSync_order_witness:
  "''t1'' \<notin> activeConversations stored_hello \<and> \<not> syncing stored_hello
   \<and> map_option messages
         (ydocs (syncService (startConversationSync_steps ''t1'' 2 stored_hello ! 1))
            ''the-boss-conversation-t1'') = Some [serializeMessage hello]
   \<and> ''t1'' \<in> activeConversations (startConversationSync ''t1'' 2 stored_hello)"
  using startConversationSync_order [of "''t1''" stored_hello 2]
  by (simp add: Let_def stored_hello_def loaded_def new_SyncService_def
      getMessagesByTopicId_def hello_def)

section \<open>C8: the status query\<close>

text \<open>
  C8 on a started conversation whose provider has two connected peers: the status is
  active, and the peer count it reports is 0.
\<close>

theorem getSyncStatus_peerCount:
  "isActive (getSyncStatus ''t1'' two_peers)
   \<and> map_option webrtcPeers (providers (syncService two_peers) ''the-boss-conversation-t1'')
       = Some [''desktop'', ''tablet'']
   \<and> peerCount (getSyncStatus ''t1'' two_peers) = 0"
  by (simp add: two_peers_def peersConnected_def started_t1 getSyncStatus_def getSyncDocument_def
      new_WebrtcProvider_def)

section \<open>C5: draining the offline queue\<close>




end
